theory Spec2Isabelle
  imports Main "HOL-Library.AList"
begin

section \<open>Python values used by the extractor\<close>

text \<open>
  A Python \<open>dict\<close> keeps its keys in insertion order and holds each key once. It is
  modelled as an association list whose keys are kept distinct by the operations:
  \<open>d[k] = v\<close> is \<^const>\<open>AList.update\<close> (the value is replaced in place when \<open>k\<close> is
  present, the pair is added at the end otherwise), \<open>d[k]\<close> is \<^const>\<open>map_of\<close> with
  \<open>None\<close> read as \<open>KeyError\<close>, and \<open>k in d\<close> is membership in the list of keys.
\<close>

type_synonym ('k, 'v) dict = "('k \<times> 'v) list"

definition keys :: "('k, 'v) dict \<Rightarrow> 'k list" where
  "keys d = map fst d"

text \<open>\<open>d.update(e)\<close>, and the unpacking \<open>{**d, **e}\<close> of a dict literal.\<close>

definition dict_update :: "('k, 'v) dict \<Rightarrow> ('k, 'v) dict \<Rightarrow> ('k, 'v) dict" where
  "dict_update d e = fold (\<lambda>(k, v) acc. AList.update k v acc) e d"

text \<open>The exceptions the modelled code can raise.\<close>

datatype error =
    OSError | XMLSyntaxError | SyntaxError | AttributeError | KeyError | IndexError
  | ValidationError | ValueError | NameError | ZeroDivisionError

text \<open>\<open>s.startswith(p)\<close>, \<open>s.endswith(p)\<close>, \<open>":" in s\<close> and \<open>s.split(":")[1]\<close>.\<close>

definition startswith :: "string \<Rightarrow> string \<Rightarrow> bool" where
  "startswith s p = (take (length p) s = p)"

definition endswith :: "string \<Rightarrow> string \<Rightarrow> bool" where
  "endswith s p = (length p \<le> length s \<and> drop (length s - length p) s = p)"

definition split_colon_1 :: "string \<Rightarrow> string" where
  "split_colon_1 s = takeWhile (\<lambda>c. c \<noteq> CHR '':'') (tl (dropWhile (\<lambda>c. c \<noteq> CHR '':'') s))"

text \<open>
  \<open>s.replace(old, "")\<close> for a non-empty \<open>old\<close>: the occurrences of \<open>old\<close> are removed
  from left to right, without overlap. The fuel is the length of \<open>s\<close>, which the scan
  never exceeds.
\<close>

fun remove_all :: "string \<Rightarrow> nat \<Rightarrow> string \<Rightarrow> string" where
  "remove_all old 0 s = s"
| "remove_all old (Suc n) [] = []"
| "remove_all old (Suc n) (c # cs) =
     (if old \<noteq> [] \<and> take (length old) (c # cs) = old
      then remove_all old n (drop (length old) (c # cs))
      else c # remove_all old n cs)"

definition str_remove :: "string \<Rightarrow> string \<Rightarrow> string" where
  "str_remove s old = remove_all old (length s) s"

section \<open>Taxonomy and schema derivation (\<open>xbrl.py\<close>)\<close>

text \<open>
  Modelled from the spec: the module \<open>taxonomy\<close> that declares \<open>Concept\<close>, \<open>LinkRole\<close>
  and \<open>Taxonomy\<close> is not part of the sources at hand. The specification gives a
  concept a \<open>name\<close>, a \<open>type\<close> and its \<open>child_concepts\<close>, and a link role the tree of its
  \<open>concepts\<close>; these are the fields the functions below read, together with the
  \<open>definition\<close> of a role, which names its table.
\<close>

datatype concept =
  Concept (name: string) (ctype: string) (child_concepts: "concept list")

record link_role =
  role_definition :: string
  concepts :: concept

text \<open>The column types: \<open>str\<close>, \<open>np.float64\<close>, \<open>np.int64\<close>, \<open>np.bool8\<close> and \<open>int\<close>.\<close>

datatype dtype = T_str | T_float64 | T_int64 | T_bool8 | T_int

definition DTYPE_MAP :: "(string, dtype) dict" where
  "DTYPE_MAP =
    [(''String'', T_str), (''Decimal'', T_float64), (''GYear'', T_int64),
     (''Power'', T_float64), (''Integer'', T_int64), (''Monetary'', T_int64),
     (''PerUnit'', T_float64), (''Energy'', T_int64), (''Date'', T_str),
     (''FormType'', T_str), (''ReportPeriod'', T_str), (''Default'', T_str)]"

fun get_columns_from_table :: "concept \<Rightarrow> (string, dtype) dict"
  and get_cols_from_line_item :: "concept \<Rightarrow> (string, dtype) dict" where
  "get_columns_from_table (Concept n t cs) =
     fold (\<lambda>item cols. dict_update cols (get_cols_from_line_item item)) cs []"
| "get_cols_from_line_item (Concept n t cs) =
     (if length cs > 0 then get_columns_from_table (Concept n t cs)
      else (let dtype = (case map_of DTYPE_MAP t of
                           Some d \<Rightarrow> d
                         | None \<Rightarrow> the (map_of DTYPE_MAP ''Default''))
            in [(n, dtype)]))"

record table_info =
  axes :: "string list"
  columns :: "(string, dtype) dict"

definition get_fact_table :: "link_role \<Rightarrow> bool \<Rightarrow> error + table_info" where
  "get_fact_table schedule gen_filing_id =
    (case child_concepts (concepts schedule) of
       [] \<Rightarrow> Inl IndexError
     | root_concept # _ \<Rightarrow>
        (let axes0 = map name (filter (\<lambda>concept. ctype concept = ''Axis'')
                                 (child_concepts root_concept));
             columns0 = dict_update
               [(''context_id'', T_str), (''entity_id'', T_str), (''start_date'', T_str),
                (''end_date'', T_str), (''instant'', T_bool8)]
               (fold (\<lambda>axis d. AList.update axis T_str d) axes0 []);
             columns1 = (if gen_filing_id then AList.update ''filing_id'' T_int columns0
                         else columns0);
             columns2 = fold (\<lambda>child_concept cols.
                           if endswith (name child_concept) ''LineItems''
                           then dict_update cols (get_columns_from_table child_concept)
                           else cols)
                         (child_concepts root_concept) columns1
         in Inr \<lparr>axes = axes0, columns = columns2\<rparr>))"

text \<open>
  The leaf concepts below a concept, in the order of the depth-first walk; used to state
  which columns the walk produces.
\<close>

fun leaves :: "concept \<Rightarrow> concept list" where
  "leaves (Concept n t cs) =
     (if cs = [] then [Concept n t cs] else concat (map leaves cs))"

definition table_leaves :: "concept \<Rightarrow> concept list" where
  "table_leaves c = concat (map leaves (child_concepts c))"

definition line_item_leaves :: "concept \<Rightarrow> concept list" where
  "line_item_leaves root_concept =
     concat (map table_leaves
       (filter (\<lambda>child_concept. endswith (name child_concept) ''LineItems'')
          (child_concepts root_concept)))"

text \<open>
  The type mapping in the words of the specification: monetary, integer, year and energy
  types are \<open>integer64\<close>, decimal, power and per-unit types are \<open>float64\<close>, every other
  type is \<open>string\<close>. It is compared with the lookup in \<^const>\<open>DTYPE_MAP\<close> below.
\<close>

definition spec_semantic_type :: "string \<Rightarrow> dtype" where
  "spec_semantic_type t =
     (if t \<in> {''Monetary'', ''Integer'', ''GYear'', ''Energy''} then T_int64
      else if t \<in> {''Decimal'', ''Power'', ''PerUnit''} then T_float64
      else T_str)"

definition leaf_col :: "concept \<Rightarrow> string \<times> dtype" where
  "leaf_col c = (name c, spec_semantic_type (ctype c))"

text \<open>A small line-items tree with a grouping concept, used to instantiate the results.\<close>

definition line_items_example :: concept where
  "line_items_example =
     Concept ''BalanceSheetLineItems'' ''Abstract''
       [Concept ''Assets'' ''Monetary'' [],
        Concept ''RatesAbstract'' ''Abstract''
          [Concept ''InterestRate'' ''Decimal'' [], Concept ''Remarks'' ''String'' []],
        Concept ''ReportYear'' ''GYear'' []]"

text \<open>Two link roles: one with an axis and line items, one with a line item named \<open>date\<close>.\<close>

definition schedule_example :: link_role where
  "schedule_example =
     \<lparr>role_definition = ''BalanceSheet'',
      concepts = Concept ''BalanceSheet'' ''Abstract''
        [Concept ''BalanceSheetAbstract'' ''Abstract''
           [Concept ''UtilityTypeAxis'' ''Axis'' [], line_items_example]]\<rparr>"

definition schedule_date_example :: link_role where
  "schedule_date_example =
     \<lparr>role_definition = ''Filings'',
      concepts = Concept ''Filings'' ''Abstract''
        [Concept ''FilingsAbstract'' ''Abstract''
           [Concept ''FilingsLineItems'' ''Abstract'' [Concept ''date'' ''Date'' []]]]\<rparr>"

section \<open>Instances (\<open>instance.py\<close>)\<close>

subsection \<open>The data model\<close>

text \<open>
  A \<open>date\<close> is year, month and day. The text of a date element becomes a \<open>date\<close>
  through the validation of the model classes, which belongs to the library they are
  built on: it is a parameter \<open>date_of :: string \<Rightarrow> date option\<close> of the functions that
  construct a period, \<open>None\<close> standing for a rejected text.
\<close>

datatype date = Date nat nat nat

record period =
  instant :: bool
  start_date :: "date option"
  end_date :: date

datatype dimension_type = EXPLICIT | TYPED

record axis =
  axis_name :: string
  axis_value :: string
  dimension_type :: dimension_type

record entity =
  "identifier" :: string
  dimensions :: "axis list"

record xbrl_context =
  c_id :: string
  entity :: entity
  period :: period

record xbrl_fact =
  fact_name :: string
  fact_c_id :: string
  fact_value :: "string option"

text \<open>
  \<open>Entity.check_dimensions\<close>: the lengths are compared, then every dimension of the entity
  must be named in \<open>axes\<close>. \<open>Context.check_dimensions\<close> delegates to it.
\<close>

definition check_dimensions :: "entity \<Rightarrow> string list \<Rightarrow> bool" where
  "check_dimensions e axs =
     (if length (dimensions e) \<noteq> length axs then False
      else list_all (\<lambda>dim. axis_name dim \<in> set axs) (dimensions e))"

definition context_check_dimensions :: "xbrl_context \<Rightarrow> string list \<Rightarrow> bool" where
  "context_check_dimensions c axs = check_dimensions (entity c) axs"

text \<open>
  The values a cell of a row can hold: a string, an integer (the filing id), a date,
  or the \<open>float64\<close> that a data frame makes of an integer in a column that also holds
  \<open>None\<close> (\<open>V_float n\<close> is \<open>float(n)\<close>). Python's \<open>None\<close>, and the \<open>NaN\<close> of such a column,
  is the \<open>None\<close> of the option type.
\<close>

datatype val = V_str string | V_int int | V_float int | V_date date

type_synonym cell = "val option"

text \<open>\<open>Context.get_context_ids\<close>: the identifying entries of a row.\<close>

definition get_context_ids :: "xbrl_context \<Rightarrow> int option \<Rightarrow> (string, cell) dict" where
  "get_context_ids c filing_name =
    (let axes_dict = fold (\<lambda>ax d. AList.update (axis_name ax) (Some (V_str (axis_value ax))) d)
                       (dimensions (entity c)) [];
         date_dict = (if instant (period c)
                      then [(''date'', Some (V_date (end_date (period c))))]
                      else [(''start_date'', map_option V_date (start_date (period c))),
                            (''end_date'', Some (V_date (end_date (period c))))])
     in dict_update
          (dict_update
             [(''context_id'', Some (V_str (c_id c))),
              (''entity_id'', Some (V_str (identifier (entity c)))),
              (''filing_name'', map_option V_int filing_name)]
             date_dict)
          axes_dict)"

subsection \<open>XML elements\<close>

text \<open>
  An element as the XML library presents it: the tag in the form \<open>{namespace}local\<close>, the
  namespace prefix, the prefix map in scope (\<open>None\<close> is the key of the default
  namespace), the attributes, the text (\<open>None\<close> when the element has none) and the child
  elements. A file is missing, malformed, or holds a document with a root element.
\<close>

datatype element =
  Element (tag: string) (prefix: "string option") (nsmap: "(string option, string) dict")
    (attrib: "(string, string) dict") (etext: "string option") (children: "element list")

datatype xml_file = Malformed | Document element

text \<open>
  \<open>elem.find(path, namespaces)\<close> and \<open>elem.findall(path, namespaces)\<close> for a path that is
  one tag: a prefixed tag is resolved through the prefix map (an unknown prefix is a
  \<open>SyntaxError\<close>), an unprefixed one is put in the default namespace when there is one,
  and \<open>{namespace}*\<close> matches every tag of the namespace. Only direct children are
  searched.
\<close>

definition resolve_tag :: "(string option, string) dict \<Rightarrow> string \<Rightarrow> error + string" where
  "resolve_tag ns path =
    (if CHR '':'' \<in> set path
     then (case map_of ns (Some (takeWhile (\<lambda>c. c \<noteq> CHR '':'') path)) of
             None \<Rightarrow> Inl SyntaxError
           | Some uri \<Rightarrow> Inr (''{'' @ uri @ ''}'' @ tl (dropWhile (\<lambda>c. c \<noteq> CHR '':'') path)))
     else (case map_of ns None of
             None \<Rightarrow> Inr path
           | Some uri \<Rightarrow> if uri = [] then Inr path else Inr (''{'' @ uri @ ''}'' @ path)))"

definition match_tag :: "string \<Rightarrow> string \<Rightarrow> bool" where
  "match_tag pattern t =
     (if endswith pattern ''}*'' then startswith t (butlast pattern) else t = pattern)"

definition findall :: "string \<Rightarrow> (string option, string) dict \<Rightarrow> element \<Rightarrow> error + element list" where
  "findall path ns elem =
     (case resolve_tag ns path of
        Inl e \<Rightarrow> Inl e
      | Inr pattern \<Rightarrow> Inr (filter (\<lambda>ch. match_tag pattern (tag ch)) (children elem)))"

definition find_elem :: "string \<Rightarrow> (string option, string) dict \<Rightarrow> element \<Rightarrow> error + element option" where
  "find_elem path ns elem =
     (case findall path ns elem of
        Inl e \<Rightarrow> Inl e
      | Inr [] \<Rightarrow> Inr None
      | Inr (ch # _) \<Rightarrow> Inr (Some ch))"

subsection \<open>Construction from XML\<close>

text \<open>
  Each \<open>from_xml\<close> returns the object or the exception raised on the way: an attribute or
  method read on \<open>None\<close> is an \<open>AttributeError\<close>, a missing key a \<open>KeyError\<close>, and a field
  the model class rejects (a \<open>None\<close> where a string or an axis is required, a text that
  is no date) a \<open>ValidationError\<close>.
\<close>

definition Period_from_xml :: "(string \<Rightarrow> date option) \<Rightarrow> element option \<Rightarrow> error + period" where
  "Period_from_xml date_of elem_opt =
    (case elem_opt of
       None \<Rightarrow> Inl AttributeError
     | Some elem \<Rightarrow>
        (case find_elem ''instant'' (nsmap elem) elem of
           Inl e \<Rightarrow> Inl e
         | Inr (Some inst) \<Rightarrow>
            (case Option.bind (etext inst) date_of of
               None \<Rightarrow> Inl ValidationError
             | Some d \<Rightarrow> Inr \<lparr>instant = True, start_date = None, end_date = d\<rparr>)
         | Inr None \<Rightarrow>
            (case find_elem ''startDate'' (nsmap elem) elem of
               Inl e \<Rightarrow> Inl e
             | Inr None \<Rightarrow> Inl AttributeError
             | Inr (Some sd) \<Rightarrow>
                (case find_elem ''endDate'' (nsmap elem) elem of
                   Inl e \<Rightarrow> Inl e
                 | Inr None \<Rightarrow> Inl AttributeError
                 | Inr (Some ed) \<Rightarrow>
                    (case Option.bind (etext ed) date_of of
                       None \<Rightarrow> Inl ValidationError
                     | Some d \<Rightarrow>
                        (case etext sd of
                           None \<Rightarrow> Inr \<lparr>instant = False, start_date = None, end_date = d\<rparr>
                         | Some t \<Rightarrow>
                            (case date_of t of
                               None \<Rightarrow> Inl ValidationError
                             | Some s \<Rightarrow>
                                Inr \<lparr>instant = False, start_date = Some s, end_date = d\<rparr>)))))))"

text \<open>The validator \<open>strip_prefix\<close> of \<open>Axis\<close>, and the construction of an axis.\<close>

definition strip_prefix :: "string \<Rightarrow> string" where
  "strip_prefix n = (if CHR '':'' \<in> set n then split_colon_1 n else n)"

definition Axis_new :: "string \<Rightarrow> string option \<Rightarrow> dimension_type \<Rightarrow> error + axis" where
  "Axis_new n v dt =
     (case v of
        None \<Rightarrow> Inl ValidationError
      | Some s \<Rightarrow> Inr \<lparr>axis_name = strip_prefix n, axis_value = s, dimension_type = dt\<rparr>)"

text \<open>\<open>Axis.from_xml\<close> returns \<open>None\<close> for a tag that is neither kind of member.\<close>

definition Axis_from_xml :: "element \<Rightarrow> error + axis option" where
  "Axis_from_xml elem =
    (if endswith (tag elem) ''explicitMember''
     then (case map_of (attrib elem) ''dimension'' of
             None \<Rightarrow> Inl KeyError
           | Some n \<Rightarrow> map_sum id Some (Axis_new n (etext elem) EXPLICIT))
     else if endswith (tag elem) ''typedMember''
     then (case children elem of
             [] \<Rightarrow> Inl IndexError
           | dim # _ \<Rightarrow>
              (case map_of (attrib elem) ''dimension'' of
                 None \<Rightarrow> Inl KeyError
               | Some n \<Rightarrow> map_sum id Some (Axis_new n (etext dim) TYPED)))
     else Inr None)"

text \<open>The list comprehension over the dimension elements stops at the first exception.\<close>

fun axes_from_xml :: "element list \<Rightarrow> error + axis option list" where
  "axes_from_xml [] = Inr []"
| "axes_from_xml (child # rest) =
     (case Axis_from_xml child of
        Inl e \<Rightarrow> Inl e
      | Inr a \<Rightarrow> (case axes_from_xml rest of Inl e \<Rightarrow> Inl e | Inr as \<Rightarrow> Inr (a # as)))"

definition Entity_from_xml :: "element option \<Rightarrow> error + entity" where
  "Entity_from_xml elem_opt =
    (case elem_opt of
       None \<Rightarrow> Inl AttributeError
     | Some elem \<Rightarrow>
        (case find_elem ''segment'' (nsmap elem) elem of
           Inl e \<Rightarrow> Inl e
         | Inr segment \<Rightarrow>
            (case (case segment of
                     Some s \<Rightarrow> findall ''xbrldi:*'' (nsmap s) s
                   | None \<Rightarrow> Inr []) of
               Inl e \<Rightarrow> Inl e
             | Inr dims \<Rightarrow>
                (case find_elem ''identifier'' (nsmap elem) elem of
                   Inl e \<Rightarrow> Inl e
                 | Inr None \<Rightarrow> Inl AttributeError
                 | Inr (Some ident) \<Rightarrow>
                    (case axes_from_xml dims of
                       Inl e \<Rightarrow> Inl e
                     | Inr as \<Rightarrow>
                        (case etext ident of
                           None \<Rightarrow> Inl ValidationError
                         | Some i \<Rightarrow>
                            if None \<in> set as then Inl ValidationError
                            else Inr \<lparr>identifier = i, dimensions = map the as\<rparr>))))))"

definition Context_from_xml :: "(string \<Rightarrow> date option) \<Rightarrow> element \<Rightarrow> error + xbrl_context" where
  "Context_from_xml date_of elem =
    (case map_of (attrib elem) ''id'' of
       None \<Rightarrow> Inl KeyError
     | Some i \<Rightarrow>
        (case find_elem ''entity'' (nsmap elem) elem of
           Inl e \<Rightarrow> Inl e
         | Inr ent_elem \<Rightarrow>
            (case Entity_from_xml ent_elem of
               Inl e \<Rightarrow> Inl e
             | Inr ent \<Rightarrow>
                (case find_elem ''period'' (nsmap elem) elem of
                   Inl e \<Rightarrow> Inl e
                 | Inr per_elem \<Rightarrow>
                    (case Period_from_xml date_of per_elem of
                       Inl e \<Rightarrow> Inl e
                     | Inr per \<Rightarrow> Inr \<lparr>c_id = i, entity = ent, period = per\<rparr>)))))"

definition Fact_from_xml :: "element \<Rightarrow> error + xbrl_fact" where
  "Fact_from_xml elem =
    (case map_of (nsmap elem) (prefix elem) of
       None \<Rightarrow> Inl KeyError
     | Some uri \<Rightarrow>
        (case map_of (attrib elem) ''contextRef'' of
           None \<Rightarrow> Inl KeyError
         | Some c \<Rightarrow>
            Inr \<lparr>fact_name = str_remove (tag elem) (''{'' @ uri @ ''}''),
                 fact_c_id = c, fact_value = etext elem\<rparr>))"

subsection \<open>\<open>parse\<close>\<close>

definition TAXONOMY_PREFIX :: string where
  "TAXONOMY_PREFIX = ''{http://www.w3.org/1999/xlink}href''"

text \<open>
  One turn of the loop over the children of the root, on the two dictionaries built so
  far. \<open>fact_dict[new_fact.c_id]\<close> is read only for a fact with a value, and raises
  \<open>KeyError\<close> when no context of that id has been seen.
\<close>

definition parse_child ::
  "(string \<Rightarrow> date option) \<Rightarrow> element
    \<Rightarrow> (string, xbrl_context) dict \<times> (string, xbrl_fact list) dict
    \<Rightarrow> error + (string, xbrl_context) dict \<times> (string, xbrl_fact list) dict" where
  "parse_child date_of child st =
    (case st of (context_dict, fact_dict) \<Rightarrow>
      (case map_of (attrib child) ''id'' of
         None \<Rightarrow> Inr (context_dict, fact_dict)
       | Some i \<Rightarrow>
          if startswith i ''c''
          then (case Context_from_xml date_of child of
                  Inl e \<Rightarrow> Inl e
                | Inr new_context \<Rightarrow>
                   Inr (AList.update (c_id new_context) new_context context_dict,
                        AList.update (c_id new_context) [] fact_dict))
          else if startswith i ''f''
          then (case Fact_from_xml child of
                  Inl e \<Rightarrow> Inl e
                | Inr new_fact \<Rightarrow>
                   if fact_value new_fact \<noteq> None
                   then (case map_of fact_dict (fact_c_id new_fact) of
                           None \<Rightarrow> Inl KeyError
                         | Some fs \<Rightarrow>
                            Inr (context_dict,
                                 AList.update (fact_c_id new_fact) (fs @ [new_fact]) fact_dict))
                   else Inr (context_dict, fact_dict))
          else Inr (context_dict, fact_dict)))"

fun parse_children ::
  "(string \<Rightarrow> date option) \<Rightarrow> element list
    \<Rightarrow> (string, xbrl_context) dict \<times> (string, xbrl_fact list) dict
    \<Rightarrow> error + (string, xbrl_context) dict \<times> (string, xbrl_fact list) dict" where
  "parse_children date_of [] st = Inr st"
| "parse_children date_of (child # rest) st =
     (case parse_child date_of child st of
        Inl e \<Rightarrow> Inl e
      | Inr st' \<Rightarrow> parse_children date_of rest st')"

text \<open>The schema reference read before the loop.\<close>

definition get_taxonomy_url :: "element \<Rightarrow> error + string" where
  "get_taxonomy_url root =
     (case find_elem ''link:schemaRef'' (nsmap root) root of
        Inl e \<Rightarrow> Inl e
      | Inr None \<Rightarrow> Inl AttributeError
      | Inr (Some schema_ref) \<Rightarrow>
         (case map_of (attrib schema_ref) TAXONOMY_PREFIX of
            None \<Rightarrow> Inl KeyError
          | Some taxonomy_url \<Rightarrow> Inr taxonomy_url))"

text \<open>
  \<open>parse(path)\<close>, on a file system \<open>files\<close> that maps a path to its file: a missing file is
  an \<open>OSError\<close>, a malformed one an \<open>XMLSyntaxError\<close>.
\<close>

definition parse ::
  "(string \<Rightarrow> date option) \<Rightarrow> (string \<Rightarrow> xml_file option) \<Rightarrow> string
    \<Rightarrow> error + (string, xbrl_context) dict \<times> (string, xbrl_fact list) dict \<times> string" where
  "parse date_of files path =
    (case files path of
       None \<Rightarrow> Inl OSError
     | Some Malformed \<Rightarrow> Inl XMLSyntaxError
     | Some (Document root) \<Rightarrow>
        (case get_taxonomy_url root of
           Inl e \<Rightarrow> Inl e
         | Inr taxonomy_url \<Rightarrow>
            (case parse_children date_of (children root) ([], []) of
               Inl e \<Rightarrow> Inl e
             | Inr (context_dict, fact_dict) \<Rightarrow> Inr (context_dict, fact_dict, taxonomy_url))))"

text \<open>The invariant of the loop of \<open>parse\<close>: the two dictionaries have the same keys, and
  a fact is filed under its own context id and has a value.\<close>

definition parse_inv ::
  "(string, xbrl_context) dict \<times> (string, xbrl_fact list) dict \<Rightarrow> bool" where
  "parse_inv st =
     (case st of (context_dict, fact_dict) \<Rightarrow>
        set (keys fact_dict) = set (keys context_dict)
        \<and> (\<forall>c fs f. map_of fact_dict c = Some fs \<longrightarrow> f \<in> set fs \<longrightarrow>
              fact_c_id f = c \<and> fact_value f \<noteq> None))"

subsection \<open>\<open>XbrlDb\<close>\<close>

text \<open>
  The data frames handed to \<open>XbrlDb\<close> are lists of rows of any type \<open>'r\<close>; \<open>pd.concat\<close>
  with \<open>ignore_index=True\<close> is the concatenation of the lists. The engine is the log of
  the calls \<open>to_sql(name, engine, if_exists="append")\<close>: the table name and the rows
  appended, in the order of the calls.
\<close>

record 'r df_dict =
  duration_dfs :: "'r list list"
  instant_dfs :: "'r list list"

record 'r xbrl_db =
  engine :: "(string \<times> 'r list) list"
  batch_size :: int
  num_instances :: int
  dfs :: "(string, 'r df_dict) dict"
  counter :: int

definition XbrlDb_init :: "(string \<times> 'r list) list \<Rightarrow> int \<Rightarrow> int \<Rightarrow> 'r xbrl_db" where
  "XbrlDb_init eng bs n =
     \<lparr>engine = eng, batch_size = bs, num_instances = n, dfs = [], counter = 1\<rparr>"

text \<open>The first loop of \<open>append_instance\<close>: the data frames of the instance are appended
  to the lists kept for their key.\<close>

definition accumulate ::
  "(string, 'r df_dict) dict \<Rightarrow> (string, 'r list \<times> 'r list) dict \<Rightarrow> (string, 'r df_dict) dict" where
  "accumulate d inst =
     fold (\<lambda>(key, (duration_df, instant_df)) d.
             (let d1 = (if key \<notin> set (keys d)
                        then AList.update key \<lparr>duration_dfs = [], instant_dfs = []\<rparr> d
                        else d)
              in (case map_of d1 key of
                    None \<Rightarrow> d1
                  | Some e \<Rightarrow>
                     AList.update key
                       \<lparr>duration_dfs = duration_dfs e @ [duration_df],
                        instant_dfs = instant_dfs e @ [instant_df]\<rparr> d1)))
          inst d"

text \<open>The second loop: one append per key and period type, of everything in the lists.\<close>

definition flush ::
  "(string, 'r df_dict) dict \<Rightarrow> (string \<times> 'r list) list \<Rightarrow> (string \<times> 'r list) list" where
  "flush d eng =
     fold (\<lambda>(key, e) eng.
             eng @ [(key @ '' - duration'', concat (duration_dfs e)),
                    (key @ '' - instant'', concat (instant_dfs e))])
          d eng"

text \<open>
  \<open>XbrlDb.append_instance\<close>. The remainder by a batch size of zero raises
  \<open>ZeroDivisionError\<close>; for a non-zero divisor \<open>mod\<close> on \<open>int\<close> is Python's \<open>%\<close>.
\<close>

definition append_instance ::
  "'r xbrl_db \<Rightarrow> (string, 'r list \<times> 'r list) dict \<Rightarrow> error + 'r xbrl_db" where
  "append_instance self inst =
    (let dfs1 = accumulate (dfs self) inst
     in if batch_size self = 0 then Inl ZeroDivisionError
        else
          (let engine1 =
                 (if counter self mod batch_size self = 0 \<or> counter self = num_instances self
                  then flush dfs1 (engine self)
                  else engine self)
           in Inr (self\<lparr>engine := engine1, dfs := dfs1, counter := counter self + 1\<rparr>)))"

text \<open>The instances of a run appended one after the other.\<close>

fun append_instances ::
  "'r xbrl_db \<Rightarrow> (string, 'r list \<times> 'r list) dict list \<Rightarrow> error + 'r xbrl_db" where
  "append_instances self [] = Inr self"
| "append_instances self (inst # rest) =
     (case append_instance self inst of
        Inl e \<Rightarrow> Inl e
      | Inr self' \<Rightarrow> append_instances self' rest)"

section \<open>Row assembly (\<open>xbrl.py\<close>)\<close>

text \<open>
  \<open>construct_dataframe\<close> filters the contexts with \<open>context.in_axes(axes)\<close>. The class
  \<open>Context\<close> has the fields \<open>c_id\<close>, \<open>entity\<close> and \<open>period\<close> and the methods \<open>from_xml\<close>,
  \<open>check_dimensions\<close> and \<open>get_context_ids\<close>; it has no attribute \<open>in_axes\<close>, so the
  call raises \<open>AttributeError\<close> for every context.
\<close>

definition in_axes :: "xbrl_context \<Rightarrow> string list \<Rightarrow> error + bool" where
  "in_axes c axs = Inl AttributeError"

text \<open>
  The dict comprehension that keeps the contexts of the table; it stops at the first
  exception of its condition.
\<close>

fun retained_contexts ::
  "(string, xbrl_context) dict \<Rightarrow> string list \<Rightarrow> error + (string, xbrl_context) dict" where
  "retained_contexts [] axs = Inr []"
| "retained_contexts ((cid, context) # rest) axs =
     (case in_axes context axs of
        Inl e \<Rightarrow> Inl e
      | Inr keep \<Rightarrow>
         (case retained_contexts rest axs of
            Inl e \<Rightarrow> Inl e
          | Inr kept \<Rightarrow> Inr (if keep then (cid, context) # kept else kept)))"

text \<open>
  A data frame: its column labels and its rows, each with its index label and its
  cells by column. \<open>pd.DataFrame(df)\<close> builds it from a dictionary of columns of equal
  length; a column that holds integers and \<open>None\<close> and nothing else becomes a column
  of \<open>float64\<close>. \<open>dropna(how='all')\<close> removes the rows without any value, and
  \<open>drop(label, axis=1)\<close> removes a column or raises \<open>KeyError\<close>.
\<close>

record dataframe =
  df_columns :: "string list"
  df_rows :: "(nat \<times> (string, cell) dict) list"

definition coerce_column :: "cell list \<Rightarrow> cell list" where
  "coerce_column xs =
     (if list_all (\<lambda>c. case c of None \<Rightarrow> True | Some (V_int n) \<Rightarrow> True | Some v \<Rightarrow> False) xs
         \<and> list_ex (\<lambda>c. c = None) xs \<and> list_ex (\<lambda>c. c \<noteq> None) xs
      then map (\<lambda>c. case c of Some (V_int n) \<Rightarrow> Some (V_float n) | c \<Rightarrow> c) xs
      else xs)"

definition DataFrame :: "(string, cell list) dict \<Rightarrow> dataframe" where
  "DataFrame df =
     \<lparr>df_columns = keys df,
      df_rows = map (\<lambda>i. (i, map (\<lambda>(key, xs). (key, coerce_column xs ! i)) df))
                  [0..<(case df of [] \<Rightarrow> 0 | (key, xs) # _ \<Rightarrow> length xs)]\<rparr>"

definition dropna_all :: "dataframe \<Rightarrow> dataframe" where
  "dropna_all d =
     d\<lparr>df_rows := filter (\<lambda>(i, row). list_ex (\<lambda>(key, v). v \<noteq> None) row) (df_rows d)\<rparr>"

definition drop_column :: "string \<Rightarrow> dataframe \<Rightarrow> error + dataframe" where
  "drop_column label d =
     (if label \<notin> set (df_columns d) then Inl KeyError
      else Inr \<lparr>df_columns = removeAll label (df_columns d),
                df_rows = map (\<lambda>(i, row). (i, AList.delete label row)) (df_rows d)\<rparr>)"

text \<open>The row of fact values of one context: \<open>{fact.name: fact.value for fact in
  facts[c_id] if fact.name in cols}\<close>.\<close>

definition fact_row :: "(string, dtype) dict \<Rightarrow> xbrl_fact list \<Rightarrow> (string, cell) dict" where
  "fact_row cols fs =
     fold (\<lambda>f d. AList.update (fact_name f) (map_option V_str (fact_value f)) d)
          (filter (\<lambda>f. fact_name f \<in> set (keys cols)) fs) []"

text \<open>The frame before the loop: \<open>{key: [None]*max_len for key, dtype in cols.items()}\<close>.\<close>

definition empty_columns :: "(string, dtype) dict \<Rightarrow> nat \<Rightarrow> (string, cell list) dict" where
  "empty_columns cols n = fold (\<lambda>(key, dtype) d. AList.update key (replicate n None) d) cols []"

text \<open>The loop \<open>df[key][i] = val\<close> over the entries of a row.\<close>

fun set_cells ::
  "(string, cell) dict \<Rightarrow> nat \<Rightarrow> (string, cell list) dict \<Rightarrow> error + (string, cell list) dict" where
  "set_cells [] i df = Inr df"
| "set_cells ((key, v) # rest) i df =
     (case map_of df key of
        None \<Rightarrow> Inl KeyError
      | Some xs \<Rightarrow>
         if i < length xs then set_cells rest i (AList.update key (xs[i := v]) df)
         else Inl IndexError)"

text \<open>The loop over \<open>enumerate(contexts.items())\<close>.\<close>

fun fill_rows ::
  "(string, xbrl_context) dict \<Rightarrow> (string, xbrl_fact list) dict \<Rightarrow> (string, dtype) dict
    \<Rightarrow> int option \<Rightarrow> (nat \<times> string \<times> xbrl_context) list \<Rightarrow> (string, cell list) dict
    \<Rightarrow> error + (string, cell list) dict" where
  "fill_rows contexts facts cols filing_id [] df = Inr df"
| "fill_rows contexts facts cols filing_id ((i, (cid, context)) # rest) df =
     (case map_of facts cid of
        None \<Rightarrow> Inl KeyError
      | Some fs \<Rightarrow>
         (let row = fact_row cols fs
          in if row \<noteq> []
             then (case map_of contexts cid of
                     None \<Rightarrow> Inl KeyError
                   | Some c \<Rightarrow>
                      (case set_cells (dict_update row (get_context_ids c filing_id)) i df of
                         Inl e \<Rightarrow> Inl e
                       | Inr df' \<Rightarrow> fill_rows contexts facts cols filing_id rest df'))
             else fill_rows contexts facts cols filing_id rest df))"

text \<open>
  \<open>construct_dataframe\<close>: the filter, the frame of empty columns, the loop, and the
  data frame made of the columns, without its empty rows and its column \<open>context_id\<close>.
\<close>

definition construct_dataframe ::
  "(string, xbrl_context) dict \<Rightarrow> (string, xbrl_fact list) dict \<Rightarrow> table_info
    \<Rightarrow> int option \<Rightarrow> error + dataframe" where
  "construct_dataframe contexts facts table_info filing_id =
    (let cols = columns table_info;
         axs = axes table_info
     in (case retained_contexts contexts axs of
           Inl e \<Rightarrow> Inl e
         | Inr contexts1 \<Rightarrow>
            (let max_len = length contexts1;
                 df = empty_columns cols max_len
             in (case fill_rows contexts1 facts cols filing_id (enumerate 0 contexts1) df of
                   Inl e \<Rightarrow> Inl e
                 | Inr df' \<Rightarrow> drop_column ''context_id'' (dropna_all (DataFrame df'))))))"


section \<open>The orchestrator (\<open>xbrl.py\<close>)\<close>

text \<open>
  \<open>pd.concat(frames, ignore_index=True)\<close>: the columns of all frames, the rows of all
  frames in order, renumbered from zero, with \<open>None\<close> in the columns a row lacks.
\<close>

definition pd_concat :: "dataframe list \<Rightarrow> dataframe" where
  "pd_concat frames =
    (let cs = remdups (concat (map df_columns frames))
     in \<lparr>df_columns = cs,
         df_rows = enumerate 0
           (map (\<lambda>(i, row). map (\<lambda>c. (c, case map_of row c of Some v \<Rightarrow> v | None \<Rightarrow> None)) cs)
                (concat (map df_rows frames)))\<rparr>)"

text \<open>
  The statements of \<open>process_instance\<close> after the call of \<open>parse\<close>: the filing id and one
  data frame per table.
\<close>

fun assemble_tables ::
  "(string, xbrl_context) dict \<Rightarrow> (string, xbrl_fact list) dict \<Rightarrow> int option
    \<Rightarrow> (string, table_info) dict \<Rightarrow> (string, dataframe) dict
    \<Rightarrow> error + (string, dataframe) dict" where
  "assemble_tables contexts facts filing_id [] acc = Inr acc"
| "assemble_tables contexts facts filing_id ((key, table) # rest) acc =
     (case construct_dataframe contexts facts table filing_id of
        Inl e \<Rightarrow> Inl e
      | Inr df \<Rightarrow> assemble_tables contexts facts filing_id rest (AList.update key df acc))"

text \<open>
  \<open>process_instance\<close>. \<open>parse\<close> returns three values (the contexts, the facts and the
  taxonomy URL), and the assignment \<open>contexts, facts = parse(instance_path)\<close> unpacks
  them into two names, which raises \<open>ValueError\<close>: when \<open>parse\<close> returns, the statements
  after the assignment (\<^const>\<open>assemble_tables\<close>) are not reached.
\<close>

definition process_instance ::
  "(string \<Rightarrow> date option) \<Rightarrow> (string \<Rightarrow> xml_file option) \<Rightarrow> (string, table_info) dict \<Rightarrow> bool
    \<Rightarrow> string \<times> int \<Rightarrow> error + (string, dataframe) dict" where
  "process_instance date_of files tables gen_filing_id inst =
    (case inst of (instance_path, i) \<Rightarrow>
      (case parse date_of files instance_path of
         Inl e \<Rightarrow> Inl e
       | Inr (context_dict, fact_dict, taxonomy_url) \<Rightarrow> Inl ValueError))"

text \<open>The dict comprehension of the tables, one per role, stopping at the first exception.\<close>

fun get_fact_tables ::
  "link_role list \<Rightarrow> bool \<Rightarrow> (string, table_info) dict \<Rightarrow> error + (string, table_info) dict" where
  "get_fact_tables [] gen_filing_id acc = Inr acc"
| "get_fact_tables (role # rest) gen_filing_id acc =
     (case get_fact_table role gen_filing_id of
        Inl e \<Rightarrow> Inl e
      | Inr table \<Rightarrow>
         get_fact_tables rest gen_filing_id (AList.update (role_definition role) table acc))"

text \<open>
  The loop \<open>for dfs in results\<close>. The iterator of \<open>executer.map\<close> yields the results in
  the order of the instances and raises the exception of an instance when its turn
  comes. In the body, \<open>dfs\<close> is the dictionary of the current instance: each of its
  frames is replaced by the concatenation of itself with itself. After the loop \<open>dfs\<close>
  is the dictionary of the last instance, or is unbound when there was none.
\<close>

fun merge_results ::
  "(error + (string, dataframe) dict) list \<Rightarrow> (string, dataframe) dict option
    \<Rightarrow> error + (string, dataframe) dict option" where
  "merge_results [] cur = Inr cur"
| "merge_results (r # rest) cur =
     (case r of
        Inl e \<Rightarrow> Inl e
      | Inr d \<Rightarrow> merge_results rest (Some (map (\<lambda>(key, df). (key, pd_concat [df, df])) d)))"

record taxonomy =
  roles :: "link_role list"

text \<open>
  \<open>extract\<close>, on an engine that is the log of the \<open>to_sql\<close> calls. The result is the
  exception raised, if any, and the engine at the end. A pool with a worker count
  that is not positive raises \<open>ValueError\<close>; reading \<open>dfs\<close> after a loop over no result
  raises \<open>NameError\<close>. The parameters \<open>verbose\<close> and \<open>loglevel\<close> are not read.
\<close>

definition "extract" ::
  "(string \<Rightarrow> date option) \<Rightarrow> (string \<Rightarrow> xml_file option) \<Rightarrow> taxonomy \<Rightarrow> (string \<times> int) list
    \<Rightarrow> (string \<times> dataframe) list \<Rightarrow> int \<Rightarrow> int option \<Rightarrow> bool
    \<Rightarrow> (error + unit) \<times> (string \<times> dataframe) list" where
  "extract date_of files tx instance_paths eng batch_sz threads gen_filing_id =
    (case get_fact_tables (roles tx) gen_filing_id [] of
       Inl e \<Rightarrow> (Inl e, eng)
     | Inr tables \<Rightarrow>
        if (case threads of None \<Rightarrow> False | Some n \<Rightarrow> n \<le> 0) then (Inl ValueError, eng)
        else
          (case merge_results
                  (map (process_instance date_of files tables gen_filing_id) instance_paths)
                  None of
             Inl e \<Rightarrow> (Inl e, eng)
           | Inr None \<Rightarrow> (Inl NameError, eng)
           | Inr (Some d) \<Rightarrow> (Inr (), fold (\<lambda>(key, df) eng. eng @ [(key, df)]) d eng)))"

section \<open>Concrete inputs\<close>

text \<open>Contexts, instances and documents on which the results below are instantiated.\<close>

definition duplicated_axis_context :: xbrl_context where
  "duplicated_axis_context =
     \<lparr>c_id = ''c1'',
      entity = \<lparr>identifier = ''E1'',
                dimensions = [\<lparr>axis_name = ''UtilityTypeAxis'', axis_value = ''Electric'',
                                dimension_type = EXPLICIT\<rparr>,
                              \<lparr>axis_name = ''UtilityTypeAxis'', axis_value = ''Gas'',
                                dimension_type = EXPLICIT\<rparr>]\<rparr>,
      period = \<lparr>instant = True, start_date = None, end_date = Date 2022 12 31\<rparr>\<rparr>"

definition electric_context :: xbrl_context where
  "electric_context =
     \<lparr>c_id = ''c2'',
      entity = \<lparr>identifier = ''E1'',
                dimensions = [\<lparr>axis_name = ''UtilityTypeAxis'', axis_value = ''Electric'',
                                dimension_type = EXPLICIT\<rparr>]\<rparr>,
      period = \<lparr>instant = True, start_date = None, end_date = Date 2022 12 31\<rparr>\<rparr>"

definition three_instances :: "(string, string list \<times> string list) dict list" where
  "three_instances =
     [[(''T'', ([''d1''], [''i1'']))], [(''T'', ([''d2''], [''i2'']))],
      [(''T'', ([''d3''], [''i3'']))]]"

text \<open>Instance documents: a well-formed one, one with a fact that names an absent
  context, one where that fact has no value, and a malformed file.\<close>

definition ns_example :: "(string option, string) dict" where
  "ns_example = [(None, ''urn:xbrli''), (Some ''link'', ''urn:link''),
                 (Some ''xbrldi'', ''urn:xbrldi''), (Some ''ferc'', ''urn:ferc'')]"

definition schema_ref_example :: element where
  "schema_ref_example =
     Element ''{urn:link}schemaRef'' (Some ''link'') ns_example
       [(''{http://www.w3.org/1999/xlink}href'', ''form1.xsd'')] None []"

definition context_element_example :: element where
  "context_element_example =
     Element ''{urn:xbrli}context'' None ns_example [(''id'', ''c1'')] None
       [Element ''{urn:xbrli}entity'' None ns_example [] None
          [Element ''{urn:xbrli}identifier'' None ns_example [] (Some ''E1'') [],
           Element ''{urn:xbrli}segment'' None ns_example [] None
             [Element ''{urn:xbrldi}explicitMember'' (Some ''xbrldi'') ns_example
                [(''dimension'', ''ferc:UtilityTypeAxis'')] (Some ''ferc:Electric'') []]],
        Element ''{urn:xbrli}period'' None ns_example [] None
          [Element ''{urn:xbrli}instant'' None ns_example [] (Some ''2022-12-31'') []]]"

definition fact_element :: "string \<Rightarrow> string \<Rightarrow> string \<Rightarrow> string option \<Rightarrow> element" where
  "fact_element n i c v =
     Element (''{urn:ferc}'' @ n) (Some ''ferc'') ns_example
       [(''contextRef'', c), (''id'', i)] v []"

definition root_element :: "element list \<Rightarrow> element" where
  "root_element cs = Element ''{urn:xbrli}xbrl'' None ns_example [] None cs"

definition date_of_example :: "string \<Rightarrow> date option" where
  "date_of_example s = (if s = ''2022-12-31'' then Some (Date 2022 12 31) else None)"

definition files_example :: "string \<Rightarrow> xml_file option" where
  "files_example path =
     (if path = ''good.xml''
      then Some (Document (root_element
             [schema_ref_example, context_element_example,
              fact_element ''Assets'' ''f1'' ''c1'' (Some ''1000''),
              fact_element ''Liabilities'' ''f2'' ''c1'' None]))
      else if path = ''dangling.xml''
      then Some (Document (root_element
             [schema_ref_example, context_element_example,
              fact_element ''Assets'' ''f1'' ''c9'' (Some ''1000'')]))
      else if path = ''dangling_empty.xml''
      then Some (Document (root_element
             [schema_ref_example, fact_element ''Assets'' ''f1'' ''c9'' None]))
      else if path = ''malformed.xml'' then Some Malformed
      else None)"

definition context_example :: xbrl_context where
  "context_example =
     \<lparr>c_id = ''c1'',
      entity = \<lparr>identifier = ''E1'',
                dimensions = [\<lparr>axis_name = ''UtilityTypeAxis'', axis_value = ''ferc:Electric'',
                                dimension_type = EXPLICIT\<rparr>]\<rparr>,
      period = \<lparr>instant = True, start_date = None, end_date = Date 2022 12 31\<rparr>\<rparr>"

definition assets_fact :: xbrl_fact where
  "assets_fact = \<lparr>fact_name = ''Assets'', fact_c_id = ''c1'', fact_value = Some ''1000''\<rparr>"

text \<open>A taxonomy with one role.\<close>

definition taxonomy_example :: taxonomy where
  "taxonomy_example = \<lparr>roles = [schedule_example]\<rparr>"

text \<open>
  The example of the specification: the context \<open>c1\<close> of entity \<open>E1\<close> with an instant
  period and no axes, its fact \<open>Assets\<close>, and the schema with no axes and the columns
  \<open>entity_id\<close>, \<open>date\<close> and \<open>Assets\<close>. Then the role with the line item \<open>Assets\<close> and the
  table \<open>get_fact_table\<close> derives for it.
\<close>

definition spec_example_context :: xbrl_context where
  "spec_example_context =
     \<lparr>c_id = ''c1'', entity = \<lparr>identifier = ''E1'', dimensions = []\<rparr>,
      period = \<lparr>instant = True, start_date = None, end_date = Date 2022 12 31\<rparr>\<rparr>"

definition spec_example_table :: table_info where
  "spec_example_table =
     \<lparr>axes = [],
      columns = [(''entity_id'', T_str), (''date'', T_str), (''Assets'', T_int64)]\<rparr>"

definition assets_schedule :: link_role where
  "assets_schedule =
     \<lparr>role_definition = ''Assets'',
      concepts = Concept ''Assets'' ''Abstract''
        [Concept ''AssetsAbstract'' ''Abstract''
           [Concept ''AssetsLineItems'' ''Abstract'' [Concept ''Assets'' ''Monetary'' []]]]\<rparr>"

definition assets_table :: table_info where
  "assets_table =
     \<lparr>axes = [],
      columns = [(''context_id'', T_str), (''entity_id'', T_str), (''start_date'', T_str),
                 (''end_date'', T_str), (''instant'', T_bool8), (''Assets'', T_int64)]\<rparr>"

text \<open>A document whose fact has the empty string as its text.\<close>

definition files_empty_text :: "string \<Rightarrow> xml_file option" where
  "files_empty_text path =
     (if path = ''empty_text.xml''
      then Some (Document (root_element
             [schema_ref_example, context_element_example,
              fact_element ''Assets'' ''f1'' ''c1'' (Some [])]))
      else None)"


section \<open>Properties of dictionaries\<close>

lemma map_of_update_fold:
  "map_of (fold (\<lambda>(k, v) acc. AList.update k v acc) e d) = map_of d ++ map_of (rev e)"
proof (induction e arbitrary: d)
  case Nil
  then show ?case by simp
next
  case (Cons p e)
  obtain k v where p: "p = (k, v)" by (cases p)
  show ?case
    using Cons.IH [of "AList.update k v d"]
    by (simp add: p update_conv' map_add_def fun_eq_iff split: option.splits)
qed

lemma map_of_dict_update: "map_of (dict_update d e) = map_of d ++ map_of (rev e)"
  by (simp add: dict_update_def map_of_update_fold)

lemma set_keys_update_fold:
  "fst ` set (fold (\<lambda>(k, v) acc. AList.update k v acc) e d) = fst ` set d \<union> fst ` set e"
  by (induction e arbitrary: d) (auto simp: dom_update split: prod.splits)

lemma set_keys_dict_update: "set (keys (dict_update d e)) = set (keys d) \<union> set (keys e)"
  using set_keys_update_fold [of e d] by (simp add: keys_def dict_update_def)

lemma distinct_update_fold:
  "distinct (map fst d) \<Longrightarrow> distinct (map fst (fold (\<lambda>(k, v) acc. AList.update k v acc) e d))"
  by (induction e arbitrary: d) (auto simp: distinct_update split: prod.splits)

lemma distinct_dict_update: "distinct (keys d) \<Longrightarrow> distinct (keys (dict_update d e))"
  by (simp add: keys_def dict_update_def distinct_update_fold)

section \<open>The line-item walk\<close>

lemma DTYPE_MAP_lookup:
  "(case map_of DTYPE_MAP t of Some d \<Rightarrow> d | None \<Rightarrow> the (map_of DTYPE_MAP ''Default''))
     = spec_semantic_type t"
  by (simp add: DTYPE_MAP_def spec_semantic_type_def)

lemma map_of_rev_distinct: "distinct (map fst xs) \<Longrightarrow> map_of (rev xs) = map_of xs"
proof (induction xs)
  case Nil
  then show ?case by simp
next
  case (Cons p xs)
  then have "map_of xs (fst p) = None"
    by (simp add: map_of_eq_None_iff)
  with Cons show ?case
    by (auto simp: fun_eq_iff map_add_def split: option.splits)
qed

lemma distinct_fold_cols:
  "distinct (keys acc) \<Longrightarrow> distinct (keys (fold (\<lambda>item cols. dict_update cols (f item)) cs acc))"
  by (induction cs arbitrary: acc) (simp_all add: distinct_dict_update)

lemma walk_distinct:
  "distinct (keys (get_columns_from_table c))"
  "distinct (keys (get_cols_from_line_item c))"
proof (induction c rule: get_columns_from_table_get_cols_from_line_item.induct)
  case (1 n t cs)
  show ?case using distinct_fold_cols [of "[]" get_cols_from_line_item cs]
    by (simp add: keys_def)
next
  case (2 n t cs)
  then show ?case by (cases "cs = []") (simp_all add: keys_def)
qed

lemma map_of_fold_cols:
  assumes "\<And>item. item \<in> set cs \<Longrightarrow> map_of (f item) = map_of (rev (map leaf_col (lv item)))"
    and "\<And>item. distinct (keys (f item))"
  shows "map_of (fold (\<lambda>item cols. dict_update cols (f item)) cs acc)
         = map_of acc ++ map_of (rev (map leaf_col (concat (map lv cs))))"
  using assms(1)
proof (induction cs arbitrary: acc)
  case Nil
  then show ?case by simp
next
  case (Cons c cs)
  have d: "map_of (rev (f c)) = map_of (f c)"
    using assms(2) [of c] by (simp add: keys_def map_of_rev_distinct)
  have 1: "map_of (dict_update acc (f c)) = map_of acc ++ map_of (rev (map leaf_col (lv c)))"
    by (simp add: map_of_dict_update d Cons.prems)
  have 2: "map_of (fold (\<lambda>item cols. dict_update cols (f item)) cs (dict_update acc (f c)))
        = map_of (dict_update acc (f c)) ++ map_of (rev (map leaf_col (concat (map lv cs))))"
    by (rule Cons.IH) (simp add: Cons.prems)
  show ?case
    by (simp add: 1 2)
qed

lemma walk_map_of:
  "map_of (get_columns_from_table c) = map_of (rev (map leaf_col (table_leaves c)))"
  "map_of (get_cols_from_line_item c) = map_of (rev (map leaf_col (leaves c)))"
proof (induction c rule: get_columns_from_table_get_cols_from_line_item.induct)
  case (1 n t cs)
  show ?case
    using map_of_fold_cols [where cs = cs and f = get_cols_from_line_item and lv = leaves and acc = "[]"]
      1 walk_distinct(2)
    by (simp add: table_leaves_def)
next
  case (2 n t cs)
  show ?case
  proof (cases "cs = []")
    case True
    then show ?thesis by (simp add: leaf_col_def DTYPE_MAP_lookup)
  next
    case False
    then show ?thesis using 2 by (simp add: table_leaves_def)
  qed
qed

lemma table_map_of_Some:
  assumes "map_of (get_columns_from_table c) n = Some d"
  shows "\<exists>l \<in> set (table_leaves c). name l = n \<and> d = spec_semantic_type (ctype l)"
proof -
  from assms have "(n, d) \<in> set (rev (map leaf_col (table_leaves c)))"
    by (simp only: walk_map_of) (rule map_of_SomeD)
  then show ?thesis by (auto simp: leaf_col_def)
qed

lemma table_keys: "set (keys (get_columns_from_table c)) = name ` set (table_leaves c)"
proof -
  have "dom (map_of (get_columns_from_table c)) = dom (map_of (rev (map leaf_col (table_leaves c))))"
    by (simp only: walk_map_of)
  then show ?thesis
    by (simp add: dom_map_of_conv_image_fst keys_def image_image leaf_col_def)
qed

lemma table_distinct_names:
  assumes "distinct (map name (table_leaves c))"
  shows "length (get_columns_from_table c) = length (table_leaves c)"
    and "l \<in> set (table_leaves c) \<Longrightarrow>
           map_of (get_columns_from_table c) (name l) = Some (spec_semantic_type (ctype l))"
proof -
  have "length (get_columns_from_table c) = card (set (keys (get_columns_from_table c)))"
    using walk_distinct(1) [of c] distinct_card [of "keys (get_columns_from_table c)"]
    by (simp add: keys_def)
  also have "\<dots> = card (set (map name (table_leaves c)))"
    by (simp add: table_keys)
  also have "\<dots> = length (table_leaves c)"
    using assms distinct_card [of "map name (table_leaves c)"] by simp
  finally show "length (get_columns_from_table c) = length (table_leaves c)" .
next
  assume l: "l \<in> set (table_leaves c)"
  have d: "distinct (map fst (map leaf_col (table_leaves c)))"
    using assms by (simp add: comp_def leaf_col_def)
  have "map_of (get_columns_from_table c) = map_of (map leaf_col (table_leaves c))"
    using map_of_rev_distinct [OF d] by (simp only: walk_map_of rev_map)
  moreover have "map_of (map leaf_col (table_leaves c)) (name l) = Some (spec_semantic_type (ctype l))"
    by (rule map_of_is_SomeI [OF d]) (use l in \<open>auto simp: leaf_col_def\<close>)
  ultimately show "map_of (get_columns_from_table c) (name l) = Some (spec_semantic_type (ctype l))"
    by simp
qed

text \<open>
  Claim C8. In the depth-first walk below the \<open>LineItems\<close> concept, a concept with child
  concepts produces no column of its own (its result is the merge of its children's
  results), and a leaf concept produces one column, named after the leaf and typed by the
  closed mapping of the specification. Hence the columns of the walk are exactly the
  names of the leaves, each typed by the mapping applied to a leaf of that name, and when
  the leaf names are pairwise distinct there is one column per leaf, typed by the mapping
  applied to that leaf.
\<close>

theorem line_item_walk_columns:
  "set (keys (get_columns_from_table c)) = name ` set (table_leaves c)
   \<and> distinct (keys (get_columns_from_table c))
   \<and> (\<forall>n d. map_of (get_columns_from_table c) n = Some d \<longrightarrow>
         (\<exists>l \<in> set (table_leaves c). name l = n \<and> d = spec_semantic_type (ctype l)))
   \<and> (distinct (map name (table_leaves c)) \<longrightarrow>
         length (get_columns_from_table c) = length (table_leaves c)
         \<and> (\<forall>l \<in> set (table_leaves c).
               map_of (get_columns_from_table c) (name l) = Some (spec_semantic_type (ctype l))))
   \<and> (\<forall>item. (child_concepts item \<noteq> [] \<longrightarrow>
                  get_cols_from_line_item item = get_columns_from_table item)
             \<and> (child_concepts item = [] \<longrightarrow>
                  get_cols_from_line_item item = [(name item, spec_semantic_type (ctype item))]))"
proof -
  have node: "(child_concepts item \<noteq> [] \<longrightarrow>
                  get_cols_from_line_item item = get_columns_from_table item)
             \<and> (child_concepts item = [] \<longrightarrow>
                  get_cols_from_line_item item = [(name item, spec_semantic_type (ctype item))])"
    for item
    by (cases item) (simp add: DTYPE_MAP_lookup)
  show ?thesis
    using table_keys [of c] walk_distinct(1) [of c] table_map_of_Some [of c]
      table_distinct_names [of c] node
    by blast
qed

text \<open>The walk on the example tree: the grouping concept gives no column.\<close>

theorem line_item_walk_columns_witness:
  "distinct (map name (table_leaves line_items_example))
   \<and> get_columns_from_table line_items_example =
       [(''Assets'', T_int64), (''InterestRate'', T_float64), (''Remarks'', T_str),
        (''ReportYear'', T_int64)]
   \<and> length (get_columns_from_table line_items_example) = length (table_leaves line_items_example)
   \<and> map_of (get_columns_from_table line_items_example) ''RatesAbstract'' = None
   \<and> map_of (get_columns_from_table line_items_example) ''InterestRate''
       = Some (spec_semantic_type ''Decimal'')"
  using line_item_walk_columns [of line_items_example]
  by (simp add: line_items_example_def table_leaves_def dict_update_def DTYPE_MAP_def
      spec_semantic_type_def)

section \<open>The derived schema\<close>

lemma fold_filter_update:
  "fold (\<lambda>ch cols. if P ch then dict_update cols (g ch) else cols) cs acc
     = fold (\<lambda>ch cols. dict_update cols (g ch)) (filter P cs) acc"
  by (induction cs arbitrary: acc) simp_all

lemma line_items_map_of:
  "map_of (fold (\<lambda>child_concept cols.
             if endswith (name child_concept) ''LineItems''
             then dict_update cols (get_columns_from_table child_concept) else cols)
           (child_concepts root_concept) acc)
   = map_of acc ++ map_of (rev (map leaf_col (line_item_leaves root_concept)))"
  unfolding fold_filter_update line_item_leaves_def
  by (rule map_of_fold_cols) (simp_all only: walk_map_of walk_distinct)

lemma axes_dict_map_of:
  "map_of (fold (\<lambda>axis d. AList.update axis T_str d) axes0 acc) k
     = (if k \<in> set axes0 then Some T_str else map_of acc k)"
  by (induction axes0 arbitrary: acc) (auto simp: update_conv')

lemma axes_dict_distinct:
  "distinct (map fst acc) \<Longrightarrow> distinct (map fst (fold (\<lambda>axis d. AList.update axis T_str d) axes0 acc))"
  by (induction axes0 arbitrary: acc) (simp_all add: distinct_update)

lemma get_fact_table_map_of:
  assumes "child_concepts (concepts schedule) = root_concept # rest"
  shows "\<exists>ti. get_fact_table schedule gen = Inr ti
     \<and> axes ti = map name (filter (\<lambda>concept. ctype concept = ''Axis'') (child_concepts root_concept))
     \<and> map_of (columns ti) =
         ((map_of [(''context_id'', T_str), (''entity_id'', T_str), (''start_date'', T_str),
                (''end_date'', T_str), (''instant'', T_bool8)]
           ++ (\<lambda>k. if k \<in> set (axes ti) then Some T_str else None))
           ++ (if gen then [''filing_id'' \<mapsto> T_int] else Map.empty))
           ++ map_of (rev (map leaf_col (line_item_leaves root_concept)))"
proof -
  let ?axes = "map name (filter (\<lambda>concept. ctype concept = ''Axis'') (child_concepts root_concept))"
  have a: "map_of (rev (fold (\<lambda>axis d. AList.update axis T_str d) ?axes []))
      = (\<lambda>k. if k \<in> set ?axes then Some T_str else None)"
  proof -
    have "distinct (map fst (fold (\<lambda>axis d. AList.update axis T_str d) ?axes []))"
      by (rule axes_dict_distinct) simp
    then show ?thesis
      by (simp add: map_of_rev_distinct axes_dict_map_of fun_eq_iff)
  qed
  show ?thesis
    using assms
    apply (simp add: get_fact_table_def Let_def line_items_map_of map_of_dict_update a update_conv' del: map_of.simps)
    done
qed


text \<open>
  Claim C3, as amended. For every link role whose concept tree has a root concept,
  \<open>get_fact_table\<close> returns a schema whose column map has exactly these keys: the base
  columns \<open>context_id\<close>, \<open>entity_id\<close>, \<open>start_date\<close>, \<open>end_date\<close> and \<open>instant\<close>, one
  column per axis, \<open>filing_id\<close> when requested, and the line-item leaves. So \<open>entity_id\<close>
  and the pair \<open>start_date\<close>, \<open>end_date\<close> are always present, a column \<open>date\<close> is present
  only when an axis or a line-item leaf has that name, and the column of an axis is typed
  \<open>str\<close> unless a line-item leaf of the same name, or \<open>filing_id\<close>, overrides it.
\<close>

theorem get_fact_table_columns:
  assumes "child_concepts (concepts schedule) = root_concept # rest"
  shows "\<exists>ti. get_fact_table schedule gen = Inr ti
     \<and> axes ti = map name (filter (\<lambda>concept. ctype concept = ''Axis'')
                              (child_concepts root_concept))
     \<and> set (keys (columns ti)) =
          {''context_id'', ''entity_id'', ''start_date'', ''end_date'', ''instant''}
          \<union> set (axes ti) \<union> (if gen then {''filing_id''} else {})
          \<union> name ` set (line_item_leaves root_concept)
     \<and> (''date'' \<in> set (keys (columns ti)) \<longleftrightarrow>
          ''date'' \<in> set (axes ti) \<or> ''date'' \<in> name ` set (line_item_leaves root_concept))
     \<and> (\<forall>a \<in> set (axes ti).
          a \<notin> name ` set (line_item_leaves root_concept) \<and> (gen \<longrightarrow> a \<noteq> ''filing_id'')
          \<longrightarrow> map_of (columns ti) a = Some T_str)"
proof -
  from get_fact_table_map_of [OF assms, of gen] obtain ti where
    r: "get_fact_table schedule gen = Inr ti"
    and ax: "axes ti = map name (filter (\<lambda>concept. ctype concept = ''Axis'')
                              (child_concepts root_concept))"
    and m: "map_of (columns ti) =
         ((map_of [(''context_id'', T_str), (''entity_id'', T_str), (''start_date'', T_str),
                (''end_date'', T_str), (''instant'', T_bool8)]
           ++ (\<lambda>k. if k \<in> set (axes ti) then Some T_str else None))
           ++ (if gen then [''filing_id'' \<mapsto> T_int] else Map.empty))
           ++ map_of (rev (map leaf_col (line_item_leaves root_concept)))"
    by blast
  have li: "dom (map_of (rev (map leaf_col (line_item_leaves root_concept))))
              = name ` set (line_item_leaves root_concept)"
    by (simp add: dom_map_of_conv_image_fst image_image leaf_col_def)
  have "set (keys (columns ti)) = dom (map_of (columns ti))"
    by (simp add: keys_def dom_map_of_conv_image_fst)
  also have "\<dots> = {''context_id'', ''entity_id'', ''start_date'', ''end_date'', ''instant''}
          \<union> set (axes ti) \<union> (if gen then {''filing_id''} else {})
          \<union> name ` set (line_item_leaves root_concept)"
    unfolding m dom_map_add li by (auto simp: dom_def)
  finally have k: "set (keys (columns ti)) =
          {''context_id'', ''entity_id'', ''start_date'', ''end_date'', ''instant''}
          \<union> set (axes ti) \<union> (if gen then {''filing_id''} else {})
          \<union> name ` set (line_item_leaves root_concept)" .
  have d: "''date'' \<in> set (keys (columns ti)) \<longleftrightarrow>
          ''date'' \<in> set (axes ti) \<or> ''date'' \<in> name ` set (line_item_leaves root_concept)"
    unfolding k by simp
  have t: "map_of (columns ti) a = Some T_str"
    if "a \<in> set (axes ti)" "a \<notin> name ` set (line_item_leaves root_concept)"
       "gen \<longrightarrow> a \<noteq> ''filing_id''" for a
  proof -
    have "map_of (rev (map leaf_col (line_item_leaves root_concept))) a = None"
      using that(2) li by (metis domIff)
    then show ?thesis
      using that(1,3) unfolding m by (simp add: map_add_def)
  qed
  show ?thesis
    using r ax k d t by blast
qed

theorem get_fact_table_columns_witness:
  "child_concepts (concepts schedule_example)
     = [Concept ''BalanceSheetAbstract'' ''Abstract''
           [Concept ''UtilityTypeAxis'' ''Axis'' [], line_items_example]]
   \<and> (\<exists>ti. get_fact_table schedule_example True = Inr ti
        \<and> axes ti = [''UtilityTypeAxis'']
        \<and> set (keys (columns ti)) =
            {''context_id'', ''entity_id'', ''start_date'', ''end_date'', ''instant'',
             ''UtilityTypeAxis'', ''filing_id'', ''Assets'', ''InterestRate'', ''Remarks'',
             ''ReportYear''}
        \<and> ''date'' \<notin> set (keys (columns ti))
        \<and> map_of (columns ti) ''UtilityTypeAxis'' = Some T_str)"
proof -
  have c: "child_concepts (concepts schedule_example)
     = Concept ''BalanceSheetAbstract'' ''Abstract''
           [Concept ''UtilityTypeAxis'' ''Axis'' [], line_items_example] # []"
    by (simp add: schedule_example_def)
  have l: "name ` set (line_item_leaves (Concept ''BalanceSheetAbstract'' ''Abstract''
           [Concept ''UtilityTypeAxis'' ''Axis'' [], line_items_example]))
      = {''Assets'', ''InterestRate'', ''Remarks'', ''ReportYear''}"
    by (simp add: line_item_leaves_def table_leaves_def line_items_example_def endswith_def)
  let ?root = "Concept ''BalanceSheetAbstract'' ''Abstract''
           [Concept ''UtilityTypeAxis'' ''Axis'' [], line_items_example]"
  have a: "map name (filter (\<lambda>concept. ctype concept = ''Axis'') (child_concepts ?root))
      = [''UtilityTypeAxis'']"
    by (simp add: line_items_example_def)
  have "\<exists>ti. get_fact_table schedule_example True = Inr ti
     \<and> axes ti = [''UtilityTypeAxis'']
     \<and> set (keys (columns ti)) =
          {''context_id'', ''entity_id'', ''start_date'', ''end_date'', ''instant''}
          \<union> set (axes ti) \<union> {''filing_id''}
          \<union> {''Assets'', ''InterestRate'', ''Remarks'', ''ReportYear''}
     \<and> (''date'' \<in> set (keys (columns ti)) \<longleftrightarrow>
          ''date'' \<in> set (axes ti) \<or> ''date'' \<in> {''Assets'', ''InterestRate'', ''Remarks'', ''ReportYear''})
     \<and> (\<forall>a \<in> set (axes ti).
          a \<notin> {''Assets'', ''InterestRate'', ''Remarks'', ''ReportYear''} \<and> (True \<longrightarrow> a \<noteq> ''filing_id'')
          \<longrightarrow> map_of (columns ti) a = Some T_str)"
    using get_fact_table_columns [OF c, of True] by (simp only: l a if_True)
  then obtain ti where
    r: "get_fact_table schedule_example True = Inr ti"
    and ax: "axes ti = [''UtilityTypeAxis'']"
    and k: "set (keys (columns ti)) =
          {''context_id'', ''entity_id'', ''start_date'', ''end_date'', ''instant''}
          \<union> set (axes ti) \<union> {''filing_id''}
          \<union> {''Assets'', ''InterestRate'', ''Remarks'', ''ReportYear''}"
    and d: "''date'' \<in> set (keys (columns ti)) \<longleftrightarrow>
          ''date'' \<in> set (axes ti) \<or> ''date'' \<in> {''Assets'', ''InterestRate'', ''Remarks'', ''ReportYear''}"
    and t: "\<forall>a \<in> set (axes ti).
          a \<notin> {''Assets'', ''InterestRate'', ''Remarks'', ''ReportYear''} \<and> (True \<longrightarrow> a \<noteq> ''filing_id'')
          \<longrightarrow> map_of (columns ti) a = Some T_str"
    by (elim exE conjE)
  have k': "set (keys (columns ti)) =
            {''context_id'', ''entity_id'', ''start_date'', ''end_date'', ''instant'',
             ''UtilityTypeAxis'', ''filing_id'', ''Assets'', ''InterestRate'', ''Remarks'',
             ''ReportYear''}"
    unfolding k ax by (simp add: insert_commute)
  have d': "''date'' \<notin> set (keys (columns ti))"
    unfolding d ax by simp
  have t': "map_of (columns ti) ''UtilityTypeAxis'' = Some T_str"
    using t unfolding ax by simp
  show ?thesis
    by (intro conjI exI [of _ ti]) (fact c r ax k' d' t')+
qed

text \<open>
  The claim as stated fails on a role with a line item named \<open>date\<close>: the derived column
  map holds \<open>date\<close> together with \<open>start_date\<close> and \<open>end_date\<close>.
\<close>

theorem get_fact_table_date_counterexample:
  "get_fact_table schedule_date_example False =
     Inr \<lparr>axes = [],
          columns = [(''context_id'', T_str), (''entity_id'', T_str), (''start_date'', T_str),
                     (''end_date'', T_str), (''instant'', T_bool8), (''date'', T_str)]\<rparr>
   \<and> ''date'' \<in> set (keys [(''context_id'', T_str), (''entity_id'', T_str),
                     (''start_date'', T_str), (''end_date'', T_str), (''instant'', T_bool8),
                     (''date'', T_str)])
   \<and> ''start_date'' \<in> set (keys [(''context_id'', T_str), (''entity_id'', T_str),
                     (''start_date'', T_str), (''end_date'', T_str), (''instant'', T_bool8),
                     (''date'', T_str)])
   \<and> ''end_date'' \<in> set (keys [(''context_id'', T_str), (''entity_id'', T_str),
                     (''start_date'', T_str), (''end_date'', T_str), (''instant'', T_bool8),
                     (''date'', T_str)])"
  by (simp add: get_fact_table_def schedule_date_example_def dict_update_def endswith_def
      DTYPE_MAP_def keys_def)

section \<open>Eligibility of a context for a table\<close>

lemma check_dimensions_iff:
  "check_dimensions e axs \<longleftrightarrow>
     length (dimensions e) = length axs \<and> set (map axis_name (dimensions e)) \<subseteq> set axs"
  by (auto simp: check_dimensions_def list_all_iff)

lemma distinct_same_length_subset:
  assumes "distinct xs" and "length xs = length ys" and "set xs \<subseteq> set ys"
  shows "set xs = set ys"
proof -
  have "card (set ys) \<le> length ys" by (rule card_length)
  also have "\<dots> = card (set xs)" using assms(1,2) by (simp add: distinct_card)
  finally show ?thesis using assms(3) by (simp add: card_seteq)
qed

lemma check_dimensions_distinct:
  assumes "distinct (map axis_name (dimensions e))" and "distinct axs"
  shows "check_dimensions e axs \<longleftrightarrow> set (map axis_name (dimensions e)) = set axs"
proof
  assume "check_dimensions e axs"
  then have "length (map axis_name (dimensions e)) = length axs"
    and "set (map axis_name (dimensions e)) \<subseteq> set axs"
    by (simp_all add: check_dimensions_iff)
  with assms(1) show "set (map axis_name (dimensions e)) = set axs"
    by (rule distinct_same_length_subset)
next
  assume eq: "set (map axis_name (dimensions e)) = set axs"
  have "length (map axis_name (dimensions e)) = card (set (map axis_name (dimensions e)))"
    using assms(1) by (rule distinct_card [symmetric])
  also have "\<dots> = length axs"
    unfolding eq using assms(2) by (rule distinct_card)
  finally show "check_dimensions e axs"
    using eq by (simp add: check_dimensions_iff)
qed

text \<open>
  Claim C4, as amended. For every context whose entity names each axis once and every
  schema whose list of axes has no duplicate, \<open>Context.check_dimensions\<close>, the check of
  the source for the eligibility of a context, holds for the axes of the schema if and
  only if the set of axis names of the entity of the context equals the set of axes of
  the schema.
\<close>

theorem check_dimensions_iff_same_axes:
  assumes "distinct (map axis_name (dimensions (entity c)))" and "distinct axs"
  shows "context_check_dimensions c axs \<longleftrightarrow>
           set (map axis_name (dimensions (entity c))) = set axs"
  using check_dimensions_distinct [OF assms]
  by (simp add: context_check_dimensions_def)

theorem check_dimensions_iff_same_axes_witness:
  "distinct (map axis_name (dimensions (entity electric_context)))
   \<and> distinct [''UtilityTypeAxis'']
   \<and> set (map axis_name (dimensions (entity electric_context))) = set [''UtilityTypeAxis'']
   \<and> context_check_dimensions electric_context [''UtilityTypeAxis'']
   \<and> \<not> context_check_dimensions electric_context []"
proof -
  have 1: "distinct (map axis_name (dimensions (entity electric_context)))"
    by (simp add: electric_context_def)
  have 2: "distinct [''UtilityTypeAxis'']" and 3: "distinct ([] :: string list)"
    by simp_all
  have 4: "set (map axis_name (dimensions (entity electric_context))) = set [''UtilityTypeAxis'']"
    by (simp add: electric_context_def)
  have 5: "set (map axis_name (dimensions (entity electric_context))) \<noteq> set []"
    by (simp add: electric_context_def)
  have 6: "context_check_dimensions electric_context [''UtilityTypeAxis'']"
    using check_dimensions_iff_same_axes [OF 1 2] 4 by simp
  have 7: "\<not> context_check_dimensions electric_context []"
    using check_dimensions_iff_same_axes [OF 1 3] 5 by simp
  show ?thesis
    by (intro conjI) (fact 1 2 4 6 7)+
qed

text \<open>
  Without the condition the claim fails: the check holds for a context that names one
  axis twice and a schema with two axes, one of which the context lacks.
\<close>

theorem check_dimensions_duplicated_axis_counterexample:
  "context_check_dimensions duplicated_axis_context [''UtilityTypeAxis'', ''PlantAxis'']
   \<and> set (map axis_name (dimensions (entity duplicated_axis_context)))
        \<noteq> set [''UtilityTypeAxis'', ''PlantAxis'']"
  by (simp add: context_check_dimensions_def check_dimensions_def duplicated_axis_context_def)

section \<open>Batched writes of \<open>XbrlDb\<close>\<close>

lemma append_instance_Inr:
  assumes "append_instance self inst = Inr self'"
  shows "counter self' = counter self + 1"
    and "dfs self' = accumulate (dfs self) inst"
    and "engine self' =
           (if counter self mod batch_size self = 0 \<or> counter self = num_instances self
            then flush (dfs self') (engine self) else engine self)"
  using assms by (auto simp: append_instance_def Let_def split: if_splits)

lemma append_instances_counter:
  "append_instances self insts = Inr self' \<Longrightarrow> counter self' = counter self + int (length insts)"
proof (induction insts arbitrary: self)
  case Nil
  then show ?case by simp
next
  case (Cons inst insts)
  then show ?case
    by (auto split: sum.splits dest!: append_instance_Inr(1))
qed

text \<open>
  Claim C1, at a batch size of 2 and 3 instances with one table. The engine receives two
  appends per table, after the second and after the third instance, but the lists of
  the table are not cleared after the first flush: the second flush appends the rows of
  all three instances, so the rows of the first two instances are written twice.
\<close>

theorem append_instance_rewrites_rows:
  "map_sum id engine (append_instances (XbrlDb_init [] 2 3) three_instances) =
     Inr [(''T - duration'', [''d1'', ''d2'']), (''T - instant'', [''i1'', ''i2'']),
          (''T - duration'', [''d1'', ''d2'', ''d3'']),
          (''T - instant'', [''i1'', ''i2'', ''i3''])]"
  by (simp add: three_instances_def XbrlDb_init_def append_instance_def accumulate_def
      flush_def keys_def)

section \<open>The parser\<close>

lemma parse_inv_init: "parse_inv ([], [])"
  by (simp add: parse_inv_def keys_def)

lemma set_keys_update: "set (keys (AList.update k v d)) = insert k (set (keys d))"
  by (simp add: keys_def dom_update)

lemma map_of_Some_in_keys: "map_of d k = Some v \<Longrightarrow> k \<in> set (keys d)"
  by (auto simp: keys_def dest: map_of_SomeD intro: rev_image_eqI)

lemma parse_child_inv:
  assumes "parse_inv st" and "parse_child date_of child st = Inr st'"
  shows "parse_inv st'"
proof -
  obtain cd fd where st: "st = (cd, fd)" by (cases st)
  from assms show ?thesis
    unfolding st parse_child_def parse_inv_def
    by (auto simp: set_keys_update update_conv' insert_absorb
        dest: map_of_Some_in_keys split: option.splits if_splits sum.splits)
qed

lemma parse_children_inv:
  "parse_inv st \<Longrightarrow> parse_children date_of cs st = Inr st' \<Longrightarrow> parse_inv st'"
proof (induction cs arbitrary: st)
  case Nil
  then show ?case by simp
next
  case (Cons child cs)
  then show ?case
    by (auto split: sum.splits dest: parse_child_inv)
qed

lemma parse_Inr_inv:
  assumes "parse date_of files path = Inr (context_dict, fact_dict, taxonomy_url)"
  shows "parse_inv (context_dict, fact_dict)"
proof -
  from assms obtain root where
    "parse_children date_of (children root) ([], []) = Inr (context_dict, fact_dict)"
    by (auto simp: parse_def split: option.splits xml_file.splits sum.splits)
  with parse_inv_init show ?thesis by (rule parse_children_inv)
qed

lemma parse_children_append:
  "parse_children date_of (xs @ ys) st =
     (case parse_children date_of xs st of
        Inl e \<Rightarrow> Inl e
      | Inr st' \<Rightarrow> parse_children date_of ys st')"
  by (induction xs arbitrary: st) (auto split: sum.splits)

lemma parse_child_valueless:
  assumes "map_of (attrib child) ''id'' = Some i" and "\<not> startswith i ''c''"
    and "startswith i ''f''" and "Fact_from_xml child = Inr f" and "fact_value f = None"
  shows "parse_child date_of child st = Inr st"
  using assms by (cases st) (simp add: parse_child_def)

lemma parse_child_unknown_context:
  assumes "map_of (attrib child) ''id'' = Some i" and "\<not> startswith i ''c''"
    and "startswith i ''f''" and "Fact_from_xml child = Inr f" and "fact_value f \<noteq> None"
    and "fact_c_id f \<notin> set (keys fd)"
  shows "parse_child date_of child (cd, fd) = Inl KeyError"
proof -
  have "map_of fd (fact_c_id f) = None"
    using assms(6) by (simp add: keys_def map_of_eq_None_iff)
  with assms show ?thesis by (auto simp: parse_child_def)
qed

lemma parse_good_example:
  "parse date_of_example files_example ''good.xml''
     = Inr ([(''c1'', context_example)], [(''c1'', [assets_fact])], ''form1.xsd'')"
  by code_simp

text \<open>
  Claim C6, as amended. In the fact map that \<open>parse\<close> returns every fact has a value that
  is not \<open>None\<close>: a fact is appended to the list of its context only if its element has
  a text, and a fact element without text leaves the context map and the fact map as
  they were. (A text that is the empty string is a text.)
\<close>

theorem parse_discards_valueless_facts:
  "(parse date_of files path = Inr (context_dict, fact_dict, taxonomy_url) \<longrightarrow>
      (\<forall>c fs f. map_of fact_dict c = Some fs \<longrightarrow> f \<in> set fs \<longrightarrow> fact_value f \<noteq> None))
   \<and> (map_of (attrib child) ''id'' = Some i \<and> \<not> startswith i ''c'' \<and> startswith i ''f''
        \<and> Fact_from_xml child = Inr f \<and> fact_value f = None
        \<longrightarrow> parse_child date_of child st = Inr st)"
proof (intro conjI impI)
  assume "parse date_of files path = Inr (context_dict, fact_dict, taxonomy_url)"
  then have "parse_inv (context_dict, fact_dict)" by (rule parse_Inr_inv)
  then show "\<forall>c fs f. map_of fact_dict c = Some fs \<longrightarrow> f \<in> set fs \<longrightarrow> fact_value f \<noteq> None"
    unfolding parse_inv_def by fast
next
  assume "map_of (attrib child) ''id'' = Some i \<and> \<not> startswith i ''c'' \<and> startswith i ''f''
        \<and> Fact_from_xml child = Inr f \<and> fact_value f = None"
  then show "parse_child date_of child st = Inr st"
    using parse_child_valueless by blast
qed

theorem parse_discards_valueless_facts_witness:
  "parse date_of_example files_example ''good.xml''
     = Inr ([(''c1'', context_example)], [(''c1'', [assets_fact])], ''form1.xsd'')
   \<and> fact_value assets_fact \<noteq> None
   \<and> Fact_from_xml (fact_element ''Liabilities'' ''f2'' ''c1'' None)
       = Inr \<lparr>fact_name = ''Liabilities'', fact_c_id = ''c1'', fact_value = None\<rparr>
   \<and> parse_child date_of_example (fact_element ''Liabilities'' ''f2'' ''c1'' None)
        ([(''c1'', context_example)], [(''c1'', [assets_fact])])
       = Inr ([(''c1'', context_example)], [(''c1'', [assets_fact])])"
proof -
  let ?f = "\<lparr>fact_name = ''Liabilities'', fact_c_id = ''c1'', fact_value = None\<rparr>"
  let ?child = "fact_element ''Liabilities'' ''f2'' ''c1'' None"
  have f: "Fact_from_xml ?child = Inr ?f"
    by code_simp
  have h: "map_of (attrib ?child) ''id'' = Some ''f2'' \<and> \<not> startswith ''f2'' ''c''
        \<and> startswith ''f2'' ''f'' \<and> Fact_from_xml ?child = Inr ?f \<and> fact_value ?f = None"
    using f by (simp add: fact_element_def startswith_def)
  note inst = parse_discards_valueless_facts
    [of date_of_example files_example "''good.xml''" "[(''c1'', context_example)]"
        "[(''c1'', [assets_fact])]" "''form1.xsd''" ?child "''f2''" ?f
        "([(''c1'', context_example)], [(''c1'', [assets_fact])])"]
  have 1: "fact_value assets_fact \<noteq> None"
    using inst [THEN conjunct1, rule_format, OF parse_good_example, of "''c1''" "[assets_fact]" assets_fact]
    by simp
  have 2: "parse_child date_of_example ?child
        ([(''c1'', context_example)], [(''c1'', [assets_fact])])
       = Inr ([(''c1'', context_example)], [(''c1'', [assets_fact])])"
    using inst [THEN conjunct2, rule_format, OF h] .
  show ?thesis
    by (intro conjI) (fact parse_good_example 1 f 2)+
qed

text \<open>
  The claim as stated, with a text that is not empty, fails on a fact whose text is the
  empty string: it is appended to the list of its context.
\<close>

theorem parse_keeps_empty_text_fact_counterexample:
  "etext (fact_element ''Assets'' ''f1'' ''c1'' (Some [])) = Some []
   \<and> parse date_of_example files_empty_text ''empty_text.xml''
       = Inr ([(''c1'', context_example)],
              [(''c1'', [\<lparr>fact_name = ''Assets'', fact_c_id = ''c1'', fact_value = Some []\<rparr>])],
              ''form1.xsd'')"
  by code_simp

text \<open>
  Claim C10, as amended. When \<open>parse\<close> returns, the fact map and the context map have the
  same keys and every fact filed under a key has that key as its context id. A fact
  with a value whose context id is not the id of a context parsed before it makes
  \<open>parse\<close> fail with \<open>KeyError\<close>. (A fact without a value is dropped before its context
  is looked up.)
\<close>

theorem parse_fact_map_keys:
  "(parse date_of files path = Inr (context_dict, fact_dict, taxonomy_url) \<longrightarrow>
      set (keys fact_dict) = set (keys context_dict)
      \<and> (\<forall>c fs f. map_of fact_dict c = Some fs \<longrightarrow> f \<in> set fs \<longrightarrow> fact_c_id f = c))
   \<and> (files path = Some (Document root) \<and> get_taxonomy_url root = Inr url
        \<and> children root = pre @ child # post
        \<and> parse_children date_of pre ([], []) = Inr (cd, fd)
        \<and> map_of (attrib child) ''id'' = Some i \<and> \<not> startswith i ''c'' \<and> startswith i ''f''
        \<and> Fact_from_xml child = Inr f \<and> fact_value f \<noteq> None
        \<and> fact_c_id f \<notin> set (keys cd)
        \<longrightarrow> parse date_of files path = Inl KeyError)"
proof (intro conjI impI)
  assume "parse date_of files path = Inr (context_dict, fact_dict, taxonomy_url)"
  then have inv: "parse_inv (context_dict, fact_dict)" by (rule parse_Inr_inv)
  then show "set (keys fact_dict) = set (keys context_dict)"
    by (simp add: parse_inv_def)
  from inv show "\<forall>c fs f. map_of fact_dict c = Some fs \<longrightarrow> f \<in> set fs \<longrightarrow> fact_c_id f = c"
    unfolding parse_inv_def by fast
next
  assume a: "files path = Some (Document root) \<and> get_taxonomy_url root = Inr url
        \<and> children root = pre @ child # post
        \<and> parse_children date_of pre ([], []) = Inr (cd, fd)
        \<and> map_of (attrib child) ''id'' = Some i \<and> \<not> startswith i ''c'' \<and> startswith i ''f''
        \<and> Fact_from_xml child = Inr f \<and> fact_value f \<noteq> None
        \<and> fact_c_id f \<notin> set (keys cd)"
  then have pre: "parse_children date_of pre ([], []) = Inr (cd, fd)" by simp
  with parse_inv_init have "parse_inv (cd, fd)" by (rule parse_children_inv)
  then have "set (keys fd) = set (keys cd)" by (simp add: parse_inv_def)
  with a have "fact_c_id f \<notin> set (keys fd)" by simp
  with a have "parse_child date_of child (cd, fd) = Inl KeyError"
    by (intro parse_child_unknown_context [of child i f fd date_of cd]) simp_all
  then have "parse_children date_of (pre @ child # post) ([], []) = Inl KeyError"
    by (simp add: parse_children_append pre)
  with a show "parse date_of files path = Inl KeyError"
    by (simp add: parse_def)
qed

theorem parse_fact_map_keys_witness:
  "parse date_of_example files_example ''good.xml''
     = Inr ([(''c1'', context_example)], [(''c1'', [assets_fact])], ''form1.xsd'')
   \<and> set (keys [(''c1'', [assets_fact])]) = set (keys [(''c1'', context_example)])
   \<and> fact_c_id assets_fact = ''c1''
   \<and> parse_children date_of_example [schema_ref_example, context_element_example] ([], [])
       = Inr ([(''c1'', context_example)], [(''c1'', [])])
   \<and> Fact_from_xml (fact_element ''Assets'' ''f1'' ''c9'' (Some ''1000''))
       = Inr \<lparr>fact_name = ''Assets'', fact_c_id = ''c9'', fact_value = Some ''1000''\<rparr>
   \<and> parse date_of_example files_example ''dangling.xml'' = Inl KeyError"
proof -
  let ?f = "\<lparr>fact_name = ''Assets'', fact_c_id = ''c9'', fact_value = Some ''1000''\<rparr>"
  let ?child = "fact_element ''Assets'' ''f1'' ''c9'' (Some ''1000'')"
  let ?pre = "[schema_ref_example, context_element_example]"
  let ?root = "root_element (?pre @ ?child # [])"
  have f: "Fact_from_xml ?child = Inr ?f"
    by code_simp
  have p: "parse_children date_of_example ?pre ([], []) = Inr ([(''c1'', context_example)], [(''c1'', [])])"
    by code_simp
  have u: "get_taxonomy_url ?root = Inr ''form1.xsd''"
    by code_simp
  have h: "files_example ''dangling.xml'' = Some (Document ?root)
        \<and> get_taxonomy_url ?root = Inr ''form1.xsd''
        \<and> children ?root = ?pre @ ?child # []
        \<and> parse_children date_of_example ?pre ([], []) = Inr ([(''c1'', context_example)], [(''c1'', [])])
        \<and> map_of (attrib ?child) ''id'' = Some ''f1'' \<and> \<not> startswith ''f1'' ''c''
        \<and> startswith ''f1'' ''f''
        \<and> Fact_from_xml ?child = Inr ?f \<and> fact_value ?f \<noteq> None
        \<and> fact_c_id ?f \<notin> set (keys [(''c1'', context_example)])"
    using f p u by (simp add: files_example_def root_element_def fact_element_def startswith_def keys_def)
  have 1: "set (keys [(''c1'', [assets_fact])]) = set (keys [(''c1'', context_example)])"
    and 2: "fact_c_id assets_fact = ''c1''"
    using parse_fact_map_keys [where files = files_example and path = "''good.xml''"
        and date_of = date_of_example, THEN conjunct1, rule_format, OF parse_good_example]
    by simp_all
  have 3: "parse date_of_example files_example ''dangling.xml'' = Inl KeyError"
    using parse_fact_map_keys [where files = files_example and path = "''dangling.xml''"
        and date_of = date_of_example, THEN conjunct2, rule_format, OF h] .
  show ?thesis
    by (intro conjI) (fact parse_good_example 1 2 p f 3)+
qed

text \<open>
  A fact without a value that names an absent context does not make \<open>parse\<close> fail: the
  document is parsed, with empty maps.
\<close>

theorem parse_valueless_dangling_fact_counterexample:
  "Fact_from_xml (fact_element ''Assets'' ''f1'' ''c9'' None)
     = Inr \<lparr>fact_name = ''Assets'', fact_c_id = ''c9'', fact_value = None\<rparr>
   \<and> parse date_of_example files_example ''dangling_empty.xml'' = Inr ([], [], ''form1.xsd'')"
  by code_simp

section \<open>The orchestrator\<close>

lemma process_instance_raises: "\<exists>e. process_instance date_of files tables gen inst = Inl e"
  by (auto simp: process_instance_def split: prod.splits sum.splits)

lemma merge_results_first_error:
  assumes "\<forall>r \<in> set pre. \<exists>d. r = Inr d"
  shows "merge_results (pre @ Inl e # post) cur = Inl e"
  using assms by (induction pre arbitrary: cur) auto

lemma merge_results_Nil_or_error:
  assumes "\<forall>r \<in> set rs. \<exists>e. r = Inl e"
  shows "merge_results rs None = Inr None \<or> (\<exists>e. merge_results rs None = Inl e)"
  using assms by (cases rs) auto

text \<open>
  As \<open>process_instance\<close> raises for every instance, \<open>extract\<close> raises in every run and
  writes nothing: with no instance the name \<open>dfs\<close> is unbound after the loop.
\<close>

lemma extract_raises:
  "\<exists>e. extract date_of files tx instance_paths eng batch_sz threads gen = (Inl e, eng)"
proof (cases "get_fact_tables (roles tx) gen []")
  case (Inl e)
  then show ?thesis by (simp add: extract_def)
next
  case (Inr tables)
  show ?thesis
  proof (cases "case threads of None \<Rightarrow> False | Some n \<Rightarrow> n \<le> 0")
    case True
    with Inr show ?thesis by (simp add: extract_def)
  next
    case False
    have "\<forall>r \<in> set (map (process_instance date_of files tables gen) instance_paths).
            \<exists>e. r = Inl e"
      using process_instance_raises by auto
    then have "merge_results (map (process_instance date_of files tables gen) instance_paths)
                 None = Inr None
        \<or> (\<exists>e. merge_results (map (process_instance date_of files tables gen) instance_paths)
              None = Inl e)"
      by (rule merge_results_Nil_or_error)
    then show ?thesis
    proof
      assume "merge_results (map (process_instance date_of files tables gen) instance_paths)
                 None = Inr None"
      with Inr False show ?thesis by (simp add: extract_def)
    next
      assume "\<exists>e. merge_results (map (process_instance date_of files tables gen)
                 instance_paths) None = Inl e"
      then obtain e where
        "merge_results (map (process_instance date_of files tables gen) instance_paths) None
           = Inl e" ..
      with Inr False show ?thesis by (simp add: extract_def)
    qed
  qed
qed

lemma tables_example:
  "\<not> isl (get_fact_tables (roles taxonomy_example) False [])"
  by code_simp

text \<open>
  Claim C2, as amended. \<open>extract\<close> does not catch the failure of an instance: when the
  tables are derived and the pool is created, the first instance, in the order of
  submission, whose processing raises makes \<open>extract\<close> raise that exception, and the
  engine is left as it was: nothing is written.
\<close>

theorem extract_aborts_on_first_failure:
  assumes "get_fact_tables (roles tx) gen [] = Inr tables"
    and "threads = None \<or> (\<exists>n. threads = Some n \<and> 0 < n)"
    and "instance_paths = pre @ inst # post"
    and "\<forall>p \<in> set pre. \<exists>d. process_instance date_of files tables gen p = Inr d"
    and "process_instance date_of files tables gen inst = Inl e"
  shows "extract date_of files tx instance_paths eng batch_sz threads gen = (Inl e, eng)"
proof -
  have "merge_results (map (process_instance date_of files tables gen) instance_paths) None
        = Inl e"
    using merge_results_first_error [of "map (process_instance date_of files tables gen) pre" e
        "map (process_instance date_of files tables gen) post" None] assms(3,4,5)
    by auto
  moreover have "\<not> (case threads of None \<Rightarrow> False | Some n \<Rightarrow> n \<le> 0)"
    using assms(2) by auto
  ultimately show ?thesis
    using assms(1) by (simp add: extract_def)
qed

theorem extract_aborts_on_first_failure_witness:
  "process_instance date_of_example files_example
       (projr (get_fact_tables (roles taxonomy_example) False [])) False (''dangling.xml'', 0)
     = Inl KeyError
   \<and> extract date_of_example files_example taxonomy_example
       [(''dangling.xml'', 0), (''good.xml'', 1)] [] 2 None False = (Inl KeyError, [])"
proof -
  let ?tables = "projr (get_fact_tables (roles taxonomy_example) False [])"
  have t: "get_fact_tables (roles taxonomy_example) False [] = Inr ?tables"
    using tables_example by simp
  have p: "process_instance date_of_example files_example ?tables False (''dangling.xml'', 0)
     = Inl KeyError"
    by (simp add: process_instance_def) code_simp
  have e: "extract date_of_example files_example taxonomy_example
       ([] @ (''dangling.xml'', 0) # [(''good.xml'', 1)]) [] 2 None False = (Inl KeyError, [])"
    using extract_aborts_on_first_failure [OF t _ _ _ p, of None _ "[]" "[(''good.xml'', 1)]" "[]" 2]
    by simp
  show ?thesis using p e by simp
qed

text \<open>
  The claim as stated fails on a run whose first instance is a malformed file: the run
  is aborted with the parser's exception, and the second instance is not written.
\<close>

theorem extract_malformed_instance_counterexample:
  "extract date_of_example files_example taxonomy_example
       [(''malformed.xml'', 0), (''good.xml'', 1)] [] 2 None False = (Inl XMLSyntaxError, [])"
  by code_simp

section \<open>Row assembly\<close>

lemma retained_contexts_Inr:
  "retained_contexts contexts axs = Inr kept \<Longrightarrow> contexts = [] \<and> kept = []"
  by (cases contexts) (auto simp: in_axes_def)






text \<open>
  Claim C5, on the example of the specification and on the table derived for a role
  with the line item \<open>Assets\<close>. The context \<open>c1\<close> has the axes of the table, none, and
  its fact \<open>Assets\<close> is a column of the table, so by the claim it contributes a row. The
  filter of \<open>construct_dataframe\<close> raises \<open>AttributeError\<close> instead: no table is returned.
\<close>

theorem construct_dataframe_raises_on_spec_example:
  "set (map axis_name (dimensions (entity spec_example_context))) = set (axes spec_example_table)
   \<and> map_of [(''c1'', [assets_fact])] ''c1'' = Some [assets_fact]
   \<and> fact_name assets_fact \<in> set (keys (columns spec_example_table))
   \<and> construct_dataframe [(''c1'', spec_example_context)] [(''c1'', [assets_fact])]
        spec_example_table None = Inl AttributeError
   \<and> get_fact_table assets_schedule False = Inr assets_table
   \<and> fact_name assets_fact \<in> set (keys (columns assets_table))
   \<and> construct_dataframe [(''c1'', spec_example_context)] [(''c1'', [assets_fact])]
        assets_table None = Inl AttributeError"
  by code_simp

text \<open>
  Had the filter passed, the row of the context would still not fit the derived table:
  the identifying entries of a context always include \<open>filing_name\<close>, which is a column
  of a derived table only when an axis or a line item has that name.
\<close>

lemma get_context_ids_filing_name:
  "''filing_name'' \<in> set (keys (get_context_ids c fid))"
  unfolding get_context_ids_def Let_def set_keys_dict_update
  by (simp add: keys_def)



end
